theory Spec2Isabelle
  imports Complex_Main "HOL-Library.Multiset"
begin

section \<open>Data model (models.py)\<close>

text \<open>
  The three string enums of models.py. Each member is stored and compared through its
  string value, given by the \<open>_value\<close> functions.
\<close>

datatype JewelryType = EARRINGS | NECKLACE | RING | BRACELET

datatype JewelryStatus = DRAFT | ACTIVE | ARCHIVED

datatype EventType = VIEW | TRY_ON | SHARE | CLICK | PURCHASE

fun JewelryType_value :: "JewelryType \<Rightarrow> string" where
  "JewelryType_value EARRINGS = ''earrings''"
| "JewelryType_value NECKLACE = ''necklace''"
| "JewelryType_value RING = ''ring''"
| "JewelryType_value BRACELET = ''bracelet''"

fun JewelryStatus_value :: "JewelryStatus \<Rightarrow> string" where
  "JewelryStatus_value DRAFT = ''draft''"
| "JewelryStatus_value ACTIVE = ''active''"
| "JewelryStatus_value ARCHIVED = ''archived''"

fun EventType_value :: "EventType \<Rightarrow> string" where
  "EventType_value VIEW = ''view''"
| "EventType_value TRY_ON = ''try_on''"
| "EventType_value SHARE = ''share''"
| "EventType_value CLICK = ''click''"
| "EventType_value PURCHASE = ''purchase''"

text \<open>
  A Python float (a BSON double) is identified with the rational number it denotes; NaN
  and the infinities are not modelled. Only stored values and comparisons use this type
  directly: the floating-point operations of the reporting code are parameters, see
  \<open>float_arith\<close> below. A datetime is a point on an integer time line whose unit is
  the resolution at which the store keeps datetimes, the millisecond.
\<close>

type_synonym float = rat

type_synonym datetime = int

record PriceModel =
  amount :: float
  currency :: string
  discount :: "float option"

record ImagesModel =
  thumbnail :: "string option"
  main :: "string option"
  gallery :: "string list"

record ARConfigModel =
  color :: string
  size_px :: int
  position_offset :: "(string \<times> int) list"
  landmarks :: "int list"
  render_type :: string

record MetadataModel =
  material :: "string option"
  weight :: "string option"
  tags :: "string list"
  category :: "string option"
  subcategory :: "string option"

record StockModel =
  available :: bool
  quantity :: int
  low_stock_threshold :: int

record ShareLinkModel =
  short_code :: string
  full_url :: string
  qr_code :: "string option"

text \<open>
  The analytics sub-document. The five fields written at creation are record fields; a
  counter that an increment creates under another name (\<open>clicks\<close>, \<open>purchases\<close>) lives
  in \<open>other_counters\<close>, keyed by its dotted path.
\<close>

record AnalyticsModel =
  views :: int
  try_ons :: int
  shares :: int
  conversions :: int
  revenue_generated :: float
  other_counters :: "(string \<times> int) list"

record SEOModel =
  meta_title :: "string option"
  meta_description :: "string option"
  seo_keywords :: "string list"

text \<open>The defaults of the nested models, as the class bodies give them.\<close>

definition ARConfigModel_default :: ARConfigModel where
  "ARConfigModel_default =
     \<lparr>color = ''#FFD700'', size_px = 30, position_offset = [(''x'', 0), (''y'', 0)],
      landmarks = [234, 454], render_type = ''circle''\<rparr>"

definition MetadataModel_default :: MetadataModel where
  "MetadataModel_default =
     \<lparr>material = None, weight = None, tags = [], category = None, subcategory = None\<rparr>"

definition StockModel_default :: StockModel where
  "StockModel_default = \<lparr>available = True, quantity = 0, low_stock_threshold = 3\<rparr>"

text \<open>
  The dict that \<open>.dict()\<close> gives for a nested model, which is what the store keeps as a
  sub-document: the model's keys in declaration order, each with its value.
\<close>

datatype pyvalue =
    VNone
  | VBool bool
  | VInt int
  | VFloat float
  | VStr string
  | VIntList "int list"
  | VStrList "string list"
  | VIntDict "(string \<times> int) list"

type_synonym subdocument = "(string \<times> pyvalue) list"

definition optional_str :: "string option \<Rightarrow> pyvalue" where
  "optional_str v = (case v of None \<Rightarrow> VNone | Some x \<Rightarrow> VStr x)"

definition optional_float :: "float option \<Rightarrow> pyvalue" where
  "optional_float v = (case v of None \<Rightarrow> VNone | Some x \<Rightarrow> VFloat x)"

definition PriceModel_dict :: "PriceModel \<Rightarrow> subdocument" where
  "PriceModel_dict p =
     [(''amount'', VFloat (amount p)), (''currency'', VStr (currency p)),
      (''discount'', optional_float (discount p))]"

definition ARConfigModel_dict :: "ARConfigModel \<Rightarrow> subdocument" where
  "ARConfigModel_dict a =
     [(''color'', VStr (color a)), (''size'', VInt (size_px a)),
      (''position_offset'', VIntDict (position_offset a)),
      (''landmarks'', VIntList (landmarks a)), (''render_type'', VStr (render_type a))]"

definition MetadataModel_dict :: "MetadataModel \<Rightarrow> subdocument" where
  "MetadataModel_dict m =
     [(''material'', optional_str (material m)), (''weight'', optional_str (weight m)),
      (''tags'', VStrList (tags m)), (''category'', optional_str (category m)),
      (''subcategory'', optional_str (subcategory m))]"

definition StockModel_dict :: "StockModel \<Rightarrow> subdocument" where
  "StockModel_dict st =
     [(''available'', VBool (available st)), (''quantity'', VInt (quantity st)),
      (''low_stock_threshold'', VInt (low_stock_threshold st))]"


definition dict_exclude_unset :: "string list \<Rightarrow> subdocument \<Rightarrow> subdocument" where
  "dict_exclude_unset fs kvs = filter (\<lambda>kv. fst kv \<in> set fs) kvs"

text \<open>
  A request body field is absent, or present with \<open>null\<close> or with a value. For a field
  with a default, pydantic fills the default in only when the key is absent.
\<close>

datatype 'a supplied = Unset | Given "'a option"

fun with_default :: "'a \<Rightarrow> 'a supplied \<Rightarrow> 'a option" where
  "with_default d Unset = Some d"
| "with_default d (Given v) = v"

text \<open>
  A nested value of a stored event document: a sub-document, the empty dict or \<open>null\<close>.
\<close>

datatype 'a subdoc = SubDoc 'a | EmptyDict | Null

text \<open>The request body of a creation, and the \<open>JewelryItemCreate\<close> parsed from it.\<close>

record JewelryItemCreate_body =
  body_name :: string
  body_type :: JewelryType
  body_description :: "string supplied"
  body_price :: PriceModel
  body_metadata :: "MetadataModel supplied"
  body_ar_config :: "ARConfigModel supplied"
  body_stock :: "StockModel supplied"

record JewelryItemCreate =
  create_name :: string
  create_type :: JewelryType
  create_description :: "string option"
  create_price :: PriceModel
  create_metadata :: "MetadataModel option"
  create_ar_config :: "ARConfigModel option"
  create_stock :: "StockModel option"

definition parse_JewelryItemCreate :: "JewelryItemCreate_body \<Rightarrow> JewelryItemCreate" where
  "parse_JewelryItemCreate b =
     \<lparr>create_name = body_name b,
      create_type = body_type b,
      create_description = (case body_description b of Unset \<Rightarrow> None | Given v \<Rightarrow> v),
      create_price = body_price b,
      create_metadata = with_default MetadataModel_default (body_metadata b),
      create_ar_config = with_default ARConfigModel_default (body_ar_config b),
      create_stock = with_default StockModel_default (body_stock b)\<rparr>"

text \<open>The \<open>Field\<close> constraints of the models that a creation goes through.\<close>

definition valid_PriceModel :: "PriceModel \<Rightarrow> bool" where
  "valid_PriceModel p \<longleftrightarrow>
     0 \<le> amount p \<and> (case discount p of None \<Rightarrow> True | Some d \<Rightarrow> 0 \<le> d \<and> d \<le> 100)"

definition valid_ARConfigModel :: "ARConfigModel \<Rightarrow> bool" where
  "valid_ARConfigModel a \<longleftrightarrow> 10 \<le> size_px a \<and> size_px a \<le> 100"

definition valid_StockModel :: "StockModel \<Rightarrow> bool" where
  "valid_StockModel s \<longleftrightarrow> 0 \<le> quantity s"

definition valid_JewelryItemCreate :: "JewelryItemCreate \<Rightarrow> bool" where
  "valid_JewelryItemCreate item \<longleftrightarrow>
     1 \<le> length (create_name item) \<and> length (create_name item) \<le> 200 \<and>
     (case create_description item of None \<Rightarrow> True | Some d \<Rightarrow> length d \<le> 1000) \<and>
     valid_PriceModel (create_price item) \<and>
     (case create_ar_config item of None \<Rightarrow> True | Some a \<Rightarrow> valid_ARConfigModel a) \<and>
     (case create_stock item of None \<Rightarrow> True | Some s \<Rightarrow> valid_StockModel s)"


text \<open>
  A document of the \<open>jewelry_items\<close> collection, with the keys that \<open>create_jewelry\<close>
  writes. \<open>oid\<close> is the store's \<open>_id\<close>, kept in its string form. The fields that an
  update can overwrite with \<open>null\<close> are options; the nested fields that an update can
  overwrite are sub-documents, the empty dict being the empty list.
\<close>

record jewelry_doc =
  oid :: string
  item_id :: string
  name :: "string option"
  jewelry_type :: "JewelryType option"
  description :: "string option"
  price :: "subdocument option"
  images :: ImagesModel
  ar_config :: "subdocument option"
  metadata :: "subdocument option"
  stock :: "subdocument option"
  share_link :: ShareLinkModel
  analytics :: AnalyticsModel
  seo :: SEOModel
  created_at :: datetime
  updated_at :: datetime
  status :: "JewelryStatus option"

text \<open>The analytics event models and a document of the \<open>analytics_events\<close> collection.\<close>

record UserDataModel =
  device :: "string option"
  browser :: "string option"
  os :: "string option"
  location :: "(string \<times> string) list option"
  ip_address :: "string option"

record SourceModel =
  platform :: "string option"
  referrer :: "string option"
  campaign :: "string option"

record InteractionsModel =
  camera_started :: bool
  face_detected :: bool
  photo_captured :: bool
  shared :: bool

record AnalyticsEventCreate =
  create_jewelry_id :: string
  create_event_type :: EventType
  create_session_id :: "string option"
  create_user_data :: "UserDataModel option"
  create_source :: "SourceModel option"
  create_duration_seconds :: "int option"
  create_interactions :: "InteractionsModel option"

record event_doc =
  event_oid :: string
  event_id :: string
  jewelry_id :: string
  event_type :: EventType
  timestamp :: datetime
  session_id :: "string option"
  user_data :: "UserDataModel subdoc"
  source :: "SourceModel subdoc"
  duration_seconds :: "int option"
  interactions :: "InteractionsModel subdoc"

section \<open>The document store (database.py and the driver calls of main.py)\<close>

text \<open>
  A collection is the list of its documents in insertion order. \<open>find_one\<close> returns the
  first document with the given \<open>item_id\<close> and \<open>update_one\<close> changes the first such
  document, so both address the same document whether or not the \<open>item_id\<close>s are unique.
\<close>

record database =
  jewelry_items :: "jewelry_doc list"
  analytics_events :: "event_doc list"

datatype py_exception =
  ZeroDivisionError | NameError string | ValueError string | TypeError string |
  OverflowError string | DuplicateKeyError string

text \<open>The \<open>detail\<close> of an \<open>HTTPException\<close>: a literal text, or \<open>str(e)\<close> of an exception.\<close>

datatype detail = Text string | Str py_exception

datatype http_exception = HTTPException int detail

definition find_one :: "string \<Rightarrow> jewelry_doc list \<Rightarrow> jewelry_doc option" where
  "find_one iid coll = List.find (\<lambda>d. item_id d = iid) coll"

fun update_one :: "string \<Rightarrow> (jewelry_doc \<Rightarrow> jewelry_doc) \<Rightarrow> jewelry_doc list \<Rightarrow> jewelry_doc list" where
  "update_one iid f [] = []"
| "update_one iid f (d # ds) = (if item_id d = iid then f d # ds else d # update_one iid f ds)"


text \<open>
  \<open>create_indexes\<close> puts a unique index on \<open>item_id\<close>: an insertion whose \<open>item_id\<close> is
  already stored raises DuplicateKeyError and stores nothing.
\<close>

definition insert_one :: "jewelry_doc \<Rightarrow> jewelry_doc list \<Rightarrow> py_exception + jewelry_doc list" where
  "insert_one d coll =
     (if item_id d \<in> set (map item_id coll) then Inl (DuplicateKeyError (item_id d))
      else Inr (coll @ [d]))"

text \<open>
  The update operator \<open>$inc\<close> on a dotted path of an item document. A path that names no
  stored field creates the field with the increment as its value. Every path that
  main.py passes starts with \<open>analytics.\<close>.
\<close>

fun inc_counter :: "string \<Rightarrow> int \<Rightarrow> (string \<times> int) list \<Rightarrow> (string \<times> int) list" where
  "inc_counter k n [] = [(k, n)]"
| "inc_counter k n ((k', v) # kvs) =
     (if k' = k then (k', v + n) # kvs else (k', v) # inc_counter k n kvs)"

definition mongo_inc :: "string \<Rightarrow> int \<Rightarrow> jewelry_doc \<Rightarrow> jewelry_doc" where
  "mongo_inc path n d =
     (let a = analytics d in
      if path = ''analytics.views'' then d\<lparr>analytics := a\<lparr>views := views a + n\<rparr>\<rparr>
      else if path = ''analytics.try_ons'' then d\<lparr>analytics := a\<lparr>try_ons := try_ons a + n\<rparr>\<rparr>
      else if path = ''analytics.shares'' then d\<lparr>analytics := a\<lparr>shares := shares a + n\<rparr>\<rparr>
      else if path = ''analytics.conversions'' then
        d\<lparr>analytics := a\<lparr>conversions := conversions a + n\<rparr>\<rparr>
      else if path = ''analytics.revenue_generated'' then
        d\<lparr>analytics := a\<lparr>revenue_generated := revenue_generated a + of_int n\<rparr>\<rparr>
      else d\<lparr>analytics := a\<lparr>other_counters := inc_counter path n (other_counters a)\<rparr>\<rparr>)"

section \<open>The environment of a request\<close>

text \<open>
  What a handler reads from outside the store: the clock (\<open>datetime.utcnow()\<close>), the
  random source behind the id generator, the \<open>_id\<close> that the driver assigns to an
  inserted document, and the interpreter's \<open>format()\<close> of an \<open>EventType\<close> member,
  which the f-string of \<open>track_event\<close> calls.
\<close>

record env =
  utcnow :: datetime
  entropy :: "nat \<Rightarrow> nat"
  fresh_oid :: string
  enum_format :: "EventType \<Rightarrow> string"

text \<open>
  \<open>EventType\<close> mixes \<open>str\<close> into \<open>Enum\<close>. Up to Python 3.10, \<open>format()\<close> of such a
  member is its string value. From Python 3.11 on, \<open>format()\<close> is \<open>Enum.__str__\<close>: the
  class name, a dot and the member name.
\<close>

fun EventType_name :: "EventType \<Rightarrow> string" where
  "EventType_name VIEW = ''VIEW''"
| "EventType_name TRY_ON = ''TRY_ON''"
| "EventType_name SHARE = ''SHARE''"
| "EventType_name CLICK = ''CLICK''"
| "EventType_name PURCHASE = ''PURCHASE''"

definition format_value :: "EventType \<Rightarrow> string" where
  "format_value t = EventType_value t"

definition format_member :: "EventType \<Rightarrow> string" where
  "format_member t = ''EventType.'' @ EventType_name t"

definition nanoid_alphabet :: string where
  "nanoid_alphabet = ''_-0123456789abcdefghijklmnopqrstuvwxyzABCDEFGHIJKLMNOPQRSTUVWXYZ''"

text \<open>
  Modelled from the spec: \<open>generate\<close> belongs to the nanoid package, which the sources
  import and do not contain. The spec treats it as producing a short URL-safe string of
  the requested size; here it draws \<open>size\<close> symbols of the package's 64-symbol alphabet
  from the random source.
\<close>

definition generate :: "(nat \<Rightarrow> nat) \<Rightarrow> nat \<Rightarrow> string" where
  "generate rnd n = map (\<lambda>i. nanoid_alphabet ! (rnd i mod 64)) [0..<n]"

section \<open>Utility functions (main.py)\<close>

definition generate_short_code :: "env \<Rightarrow> string" where
  "generate_short_code e = generate (entropy e) 8"

definition create_share_link :: "string \<Rightarrow> ShareLinkModel" where
  "create_share_link code =
     \<lparr>short_code = code,
      full_url = ''https://yoursite.com/try-on/'' @ code,
      qr_code = Some (''https://api.qrserver.com/v1/create-qr-code/?size=200x200&data=https://yoursite.com/try-on/'' @ code)\<rparr>"

section \<open>Jewelry endpoints (main.py)\<close>

text \<open>
  A handler takes the store and returns its response, or the \<open>HTTPException\<close> it
  raises, together with the store it leaves behind.
\<close>

definition not_found :: http_exception where
  "not_found = HTTPException 404 (Text ''Jewelry item not found'')"

definition get_jewelry_by_id :: "string \<Rightarrow> database \<Rightarrow> (http_exception + jewelry_doc) \<times> database" where
  "get_jewelry_by_id iid db =
     (case find_one iid (jewelry_items db) of
        None \<Rightarrow> (Inl not_found, db)
      | Some item \<Rightarrow>
          (Inr item,
           db\<lparr>jewelry_items := update_one iid (mongo_inc ''analytics.views'' 1) (jewelry_items db)\<rparr>))"

text \<open>
  \<open>create_jewelry\<close>. main.py does not import \<open>ARConfigModel\<close>, so the branch taken when
  \<open>item.ar_config\<close> is \<open>None\<close> raises NameError while the document is being built; the
  handler turns it into a 500 before anything is inserted.
\<close>

definition create_jewelry :: "env \<Rightarrow> JewelryItemCreate \<Rightarrow> database \<Rightarrow> (http_exception + jewelry_doc) \<times> database" where
  "create_jewelry e item db =
     (let new_id = generate_short_code e;
          link = create_share_link new_id;
          now = utcnow e
      in case create_ar_config item of
           None \<Rightarrow> (Inl (HTTPException 500 (Str (NameError ''ARConfigModel''))), db)
         | Some ar \<Rightarrow>
             (let doc =
                \<lparr>oid = fresh_oid e,
                 item_id = new_id,
                 name = Some (create_name item),
                 jewelry_type = Some (create_type item),
                 description = create_description item,
                 price = Some (PriceModel_dict (create_price item)),
                 images = \<lparr>thumbnail = None, main = None, gallery = []\<rparr>,
                 ar_config = Some (ARConfigModel_dict ar),
                 metadata = Some (case create_metadata item of
                                    Some m \<Rightarrow> MetadataModel_dict m
                                  | None \<Rightarrow> []),
                 stock = Some (case create_stock item of
                                 Some st \<Rightarrow> StockModel_dict st
                               | None \<Rightarrow>
                                   [(''available'', VBool True), (''quantity'', VInt 0),
                                    (''low_stock_threshold'', VInt 3)]),
                 share_link = link,
                 analytics = \<lparr>views = 0, try_ons = 0, shares = 0, conversions = 0,
                              revenue_generated = 0, other_counters = []\<rparr>,
                 seo = \<lparr>meta_title = Some (create_name item @ '' - Virtual Try-On''),
                        meta_description =
                          Some (case create_description item of
                                  None \<Rightarrow> []
                                | Some s \<Rightarrow> if s = [] then [] else take 160 s),
                        seo_keywords = []\<rparr>,
                 created_at = now,
                 updated_at = now,
                 status = Some ACTIVE\<rparr>
              in case insert_one doc (jewelry_items db) of
                   Inl ex \<Rightarrow> (Inl (HTTPException 500 (Str ex)), db)
                 | Inr coll \<Rightarrow> (Inr doc, db\<lparr>jewelry_items := coll\<rparr>)))"

text \<open>
  \<open>get_all_jewelry\<close>. The query holds the status and type filters that are truthy (not
  \<open>None\<close> and not the empty string). The driver's \<open>skip\<close> raises ValueError on a
  negative argument, and so does \<open>to_list\<close> on a negative length; \<open>to_list(0)\<close>
  returns the empty list. The find command carries the skip and a nonzero limit as BSON
  integers, and encoding one that does not fit in 64 bits raises OverflowError. The
  store sorts before it skips and limits; documents with equal sort keys stay in
  insertion order here (the store leaves their order open).
\<close>

definition max_int64 :: int where
  "max_int64 = 2 ^ 63 - 1"

record query =
  query_status :: "string option"
  query_type :: "string option"

definition truthy :: "string option \<Rightarrow> bool" where
  "truthy s = (case s of None \<Rightarrow> False | Some v \<Rightarrow> v \<noteq> [])"

definition build_query :: "string option \<Rightarrow> string option \<Rightarrow> query" where
  "build_query type_param status_param =
     \<lparr>query_status = (if truthy status_param then status_param else None),
      query_type = (if truthy type_param then type_param else None)\<rparr>"

definition matches :: "query \<Rightarrow> jewelry_doc \<Rightarrow> bool" where
  "matches q d =
     ((case query_status q of
         None \<Rightarrow> True
       | Some s \<Rightarrow> map_option JewelryStatus_value (status d) = Some s) \<and>
      (case query_type q of
         None \<Rightarrow> True
       | Some t \<Rightarrow> map_option JewelryType_value (jewelry_type d) = Some t))"

definition sort_desc :: "('a \<Rightarrow> int) \<Rightarrow> 'a list \<Rightarrow> 'a list" where
  "sort_desc k xs = sort_key (\<lambda>x. - k x) xs"

definition count_documents :: "query \<Rightarrow> jewelry_doc list \<Rightarrow> int" where
  "count_documents q coll = int (length (filter (matches q) coll))"

record list_response =
  items :: "jewelry_doc list"
  count :: int
  page :: int
  page_size :: int
  total_count :: int
  total_pages :: int

definition internal_error :: "py_exception \<Rightarrow> http_exception" where
  "internal_error ex = HTTPException 500 (Str ex)"

definition get_all_jewelry :: "int \<Rightarrow> int \<Rightarrow> string option \<Rightarrow> string option \<Rightarrow> database \<Rightarrow> (http_exception + list_response) \<times> database" where
  "get_all_jewelry pg pg_size type_param status_param db =
     (let q = build_query type_param status_param;
          skip = (pg - 1) * pg_size
      in if skip < 0 then (Inl (internal_error (ValueError ''skip'')), db)
         else if pg_size < 0 then (Inl (internal_error (ValueError ''length'')), db)
         else if max_int64 < skip \<or> max_int64 < pg_size then
           (Inl (internal_error (OverflowError ''8-byte ints'')), db)
         else
           (let found = take (nat pg_size)
                          (drop (nat skip) (sort_desc created_at (filter (matches q) (jewelry_items db))));
                total = count_documents q (jewelry_items db)
            in if pg_size = 0 then (Inl (internal_error ZeroDivisionError), db)
               else
                 (Inr \<lparr>items = found, count = int (length found), page = pg, page_size = pg_size,
                       total_count = total, total_pages = (total + pg_size - 1) div pg_size\<rparr>,
                  db)))"







section \<open>Analytics endpoints (main.py)\<close>

text \<open>
  \<open>track_event\<close>. The incremented path is \<open>analytics.\<close>, the formatted event type and
  \<open>s\<close>. The events collection has no unique index besides \<open>_id\<close>, so the insertion
  always succeeds.
\<close>

definition update_field :: "(EventType \<Rightarrow> string) \<Rightarrow> EventType \<Rightarrow> string" where
  "update_field fmt t = ''analytics.'' @ fmt t @ ''s''"

definition subdoc_or_empty :: "'a option \<Rightarrow> 'a subdoc" where
  "subdoc_or_empty v = (case v of Some m \<Rightarrow> SubDoc m | None \<Rightarrow> EmptyDict)"

definition track_event :: "env \<Rightarrow> AnalyticsEventCreate \<Rightarrow> database \<Rightarrow> (http_exception + unit) \<times> database" where
  "track_event e event db =
     (let new_id = generate (entropy e) 16;
          doc = \<lparr>event_oid = fresh_oid e,
                 event_id = new_id,
                 jewelry_id = create_jewelry_id event,
                 event_type = create_event_type event,
                 timestamp = utcnow e,
                 session_id = create_session_id event,
                 user_data = subdoc_or_empty (create_user_data event),
                 source = subdoc_or_empty (create_source event),
                 duration_seconds = create_duration_seconds event,
                 interactions = subdoc_or_empty (create_interactions event)\<rparr>
      in (Inr (),
          db\<lparr>analytics_events := analytics_events db @ [doc],
             jewelry_items :=
               update_one (create_jewelry_id event)
                 (mongo_inc (update_field (enum_format e) (create_event_type event)) 1)
                 (jewelry_items db)\<rparr>))"














section \<open>Sequences of requests\<close>




section \<open>Reading a counter\<close>

text \<open>
  The counter that belongs to an event type, read from an analytics sub-document; a
  counter that is not stored reads as 0.
\<close>

definition counter_value :: "string \<Rightarrow> (string \<times> int) list \<Rightarrow> int" where
  "counter_value k kvs = (case map_of kvs k of None \<Rightarrow> 0 | Some v \<Rightarrow> v)"

fun event_counter :: "EventType \<Rightarrow> AnalyticsModel \<Rightarrow> int" where
  "event_counter VIEW a = views a"
| "event_counter TRY_ON a = try_ons a"
| "event_counter SHARE a = shares a"
| "event_counter CLICK a = counter_value ''analytics.clicks'' (other_counters a)"
| "event_counter PURCHASE a = counter_value ''analytics.purchases'' (other_counters a)"

section \<open>Example values\<close>

text \<open>
  An environment (with the \<open>format()\<close> of Python 3.11 and later) and a valid creation
  request, used to run the handlers.
\<close>

definition example_env :: env where
  "example_env =
     \<lparr>utcnow = 1000, entropy = (\<lambda>i. i), fresh_oid = ''000000000000000000000001'',
      enum_format = format_member\<rparr>"

definition example_item :: JewelryItemCreate where
  "example_item =
     \<lparr>create_name = ''Gold Hoops'', create_type = EARRINGS, create_description = None,
      create_price = \<lparr>amount = 1500, currency = ''NPR'', discount = None\<rparr>,
      create_metadata = Some MetadataModel_default,
      create_ar_config = Some ARConfigModel_default,
      create_stock = Some StockModel_default\<rparr>"

definition empty_db :: database where
  "empty_db = \<lparr>jewelry_items = [], analytics_events = []\<rparr>"

definition example_doc :: jewelry_doc where
  "example_doc =
     \<lparr>oid = ''000000000000000000000001'',
      item_id = ''_-012345'',
      name = Some ''Gold Hoops'',
      jewelry_type = Some EARRINGS,
      description = None,
      price = Some [(''amount'', VFloat 1500), (''currency'', VStr ''NPR''), (''discount'', VNone)],
      images = \<lparr>thumbnail = None, main = None, gallery = []\<rparr>,
      ar_config = Some (ARConfigModel_dict ARConfigModel_default),
      metadata = Some (MetadataModel_dict MetadataModel_default),
      stock = Some (StockModel_dict StockModel_default),
      share_link = create_share_link ''_-012345'',
      analytics = \<lparr>views = 0, try_ons = 0, shares = 0, conversions = 0,
                   revenue_generated = 0, other_counters = []\<rparr>,
      seo = \<lparr>meta_title = Some ''Gold Hoops - Virtual Try-On'', meta_description = Some [],
             seo_keywords = []\<rparr>,
      created_at = 1000,
      updated_at = 1000,
      status = Some ACTIVE\<rparr>"

definition example_db :: database where
  "example_db = \<lparr>jewelry_items = [example_doc], analytics_events = []\<rparr>"

text \<open>
  A store with two active items and an archived one, and two events: a share of the first
  item and a view of an item that is not stored.
\<close>

definition busy_doc :: jewelry_doc where
  "busy_doc =
     example_doc\<lparr>analytics := \<lparr>views = 40, try_ons = 10, shares = 2, conversions = 2,
                                 revenue_generated = 3000, other_counters = []\<rparr>\<rparr>"

definition idle_doc :: jewelry_doc where
  "idle_doc =
     example_doc\<lparr>oid := ''000000000000000000000002'', item_id := ''ring0001'',
                 created_at := 2000, updated_at := 2000\<rparr>"

definition archived_doc :: jewelry_doc where
  "archived_doc =
     example_doc\<lparr>oid := ''000000000000000000000003'', item_id := ''arch0001'',
                 analytics := \<lparr>views = 7, try_ons = 99, shares = 1, conversions = 5,
                                 revenue_generated = 100, other_counters = []\<rparr>,
                 created_at := 3000, updated_at := 4000, status := Some ARCHIVED\<rparr>"

definition catalog_db :: database where
  "catalog_db = \<lparr>jewelry_items = [busy_doc, idle_doc, archived_doc], analytics_events = []\<rparr>"

definition share_event :: AnalyticsEventCreate where
  "share_event =
     \<lparr>create_jewelry_id = ''_-012345'', create_event_type = SHARE, create_session_id = None,
      create_user_data = None, create_source = None, create_duration_seconds = None,
      create_interactions = None\<rparr>"

definition orphan_event :: AnalyticsEventCreate where
  "orphan_event = share_event\<lparr>create_jewelry_id := ''absent00'', create_event_type := VIEW\<rparr>"

text \<open>A store of 45 active items with distinct ids and creation times.\<close>

definition numbered_doc :: "nat \<Rightarrow> jewelry_doc" where
  "numbered_doc i =
     example_doc\<lparr>item_id := ''item00'' @ [char_of (48 + i div 10), char_of (48 + i mod 10)],
                 created_at := 1000 + int i, updated_at := 1000 + int i\<rparr>"

definition big_db :: database where
  "big_db = \<lparr>jewelry_items = map numbered_doc [0..<45], analytics_events = []\<rparr>"






text \<open>
  A valid request body whose \<open>ar_config\<close> key is present with the value \<open>null\<close>, and
  the same body without the key.
\<close>

definition null_ar_config_body :: JewelryItemCreate_body where
  "null_ar_config_body =
     \<lparr>body_name = ''Gold Hoops'', body_type = EARRINGS, body_description = Unset,
      body_price = \<lparr>amount = 1500, currency = ''NPR'', discount = None\<rparr>,
      body_metadata = Unset, body_ar_config = Given None, body_stock = Unset\<rparr>"

definition omitted_ar_config_body :: JewelryItemCreate_body where
  "omitted_ar_config_body = null_ar_config_body\<lparr>body_ar_config := Unset\<rparr>"

section \<open>Verification: helper lemmas\<close>

lemma item_id_mongo_inc: "item_id (mongo_inc p n d) = item_id d"
  by (simp add: mongo_inc_def Let_def)

lemma find_one_update_one:
  assumes "\<And>d. item_id (f d) = item_id d"
  shows "find_one iid (update_one iid f coll) = map_option f (find_one iid coll)"
  by (induction coll) (simp_all add: find_one_def assms)

lemma find_one_update_one_other:
  assumes "\<And>d. item_id (f d) = item_id d" and "iid' \<noteq> iid"
  shows "find_one iid' (update_one iid f coll) = find_one iid' coll"
  by (induction coll) (simp_all add: find_one_def assms)

lemma update_one_absent: "find_one iid coll = None \<Longrightarrow> update_one iid f coll = coll"
  by (induction coll) (auto simp: find_one_def split: if_splits)


lemma views_mongo_inc_views:
  "views (analytics (mongo_inc ''analytics.views'' n d)) = views (analytics d) + n"
  by (simp add: mongo_inc_def Let_def)

lemma find_one_get:
  "find_one iid (jewelry_items (snd (get_jewelry_by_id iid db))) =
     map_option (mongo_inc ''analytics.views'' 1) (find_one iid (jewelry_items db))"
  by (cases "find_one iid (jewelry_items db)")
     (simp_all add: get_jewelry_by_id_def find_one_update_one item_id_mongo_inc)

lemma find_one_snoc:
  "find_one iid (coll @ [d]) =
     (case find_one iid coll of
        Some x \<Rightarrow> Some x
      | None \<Rightarrow> if item_id d = iid then Some d else None)"
  by (induction coll) (simp_all add: find_one_def)

lemma find_one_None_iff: "find_one iid coll = None \<longleftrightarrow> iid \<notin> set (map item_id coll)"
  by (induction coll) (auto simp: find_one_def)

lemma find_one_insert_one:
  assumes "insert_one d coll = Inr coll'"
  shows "find_one (item_id d) coll' = Some d"
proof -
  from assms have n: "item_id d \<notin> set (map item_id coll)" and c: "coll' = coll @ [d]"
    by (auto simp: insert_one_def split: if_splits)
  from n have "find_one (item_id d) coll = None"
    by (simp only: find_one_None_iff not_False_eq_True)
  then show ?thesis unfolding c
    by (simp add: find_one_snoc)
qed

lemma create_jewelry_stored:
  assumes "create_jewelry e item db = (Inr doc, db1)"
  shows "find_one (item_id doc) (jewelry_items db1) = Some doc \<and> views (analytics doc) = 0"
  using assms
  apply (simp add: create_jewelry_def Let_def split: option.splits sum.splits)
  apply (auto dest: find_one_insert_one)
  done

lemma generate_short_code_example: "generate_short_code example_env = ''_-012345''"
  by (simp add: generate_short_code_def generate_def example_env_def nanoid_alphabet_def upt_rec)

lemma create_jewelry_example:
  "create_jewelry example_env example_item empty_db = (Inr example_doc, example_db)"
  by (simp add: create_jewelry_def generate_short_code_example Let_def insert_one_def
      example_item_def empty_db_def example_doc_def example_db_def)
     (simp add: example_env_def PriceModel_dict_def optional_float_def)

lemma find_one_example: "find_one ''_-012345'' (jewelry_items example_db) = Some example_doc"
  by (simp add: find_one_def example_db_def example_doc_def)

lemma find_one_example_absent: "find_one ''absent00'' (jewelry_items example_db) = None"
  by (simp add: find_one_def example_db_def example_doc_def)

section \<open>Get\<close>

text \<open>
  Claim C1. A Get of a stored item succeeds and leaves the stored item's
  \<open>analytics.views\<close> exactly one greater than before. A Get of an absent \<open>item_id\<close> fails
  with the 404 ``Jewelry item not found'' and leaves the whole store as it was. Three
  Gets of an item that a successful creation has just stored leave its
  \<open>analytics.views\<close> at 3.
\<close>

theorem get_jewelry_by_id_counts_view:
  "(\<forall>d. find_one iid (jewelry_items db) = Some d \<longrightarrow>
        (\<exists>r. fst (get_jewelry_by_id iid db) = Inr r) \<and>
        map_option (\<lambda>d'. views (analytics d'))
          (find_one iid (jewelry_items (snd (get_jewelry_by_id iid db)))) =
        Some (views (analytics d) + 1)) \<and>
   (find_one iid (jewelry_items db) = None \<longrightarrow>
      get_jewelry_by_id iid db =
        (Inl (HTTPException 404 (Text ''Jewelry item not found'')), db)) \<and>
   (\<forall>doc db1. create_jewelry e item db = (Inr doc, db1) \<longrightarrow>
      map_option (\<lambda>d'. views (analytics d'))
        (find_one (item_id doc)
           (jewelry_items
              (snd (get_jewelry_by_id (item_id doc)
                 (snd (get_jewelry_by_id (item_id doc)
                    (snd (get_jewelry_by_id (item_id doc) db1)))))))) =
      Some 3)"
proof (intro conjI allI impI)
  fix d assume "find_one iid (jewelry_items db) = Some d"
  then show "\<exists>r. fst (get_jewelry_by_id iid db) = Inr r"
    by (simp add: get_jewelry_by_id_def)
next
  fix d assume "find_one iid (jewelry_items db) = Some d"
  then show "map_option (\<lambda>d'. views (analytics d'))
          (find_one iid (jewelry_items (snd (get_jewelry_by_id iid db)))) =
        Some (views (analytics d) + 1)"
    by (simp add: find_one_get views_mongo_inc_views)
next
  assume "find_one iid (jewelry_items db) = None"
  then show "get_jewelry_by_id iid db =
      (Inl (HTTPException 404 (Text ''Jewelry item not found'')), db)"
    by (simp add: get_jewelry_by_id_def not_found_def)
next
  fix doc db1 assume "create_jewelry e item db = (Inr doc, db1)"
  then have "find_one (item_id doc) (jewelry_items db1) = Some doc"
    and "views (analytics doc) = 0"
    using create_jewelry_stored by blast+
  then show "map_option (\<lambda>d'. views (analytics d'))
        (find_one (item_id doc)
           (jewelry_items
              (snd (get_jewelry_by_id (item_id doc)
                 (snd (get_jewelry_by_id (item_id doc)
                    (snd (get_jewelry_by_id (item_id doc) db1)))))))) =
      Some 3"
    by (simp add: find_one_get views_mongo_inc_views)
qed

theorem get_jewelry_by_id_counts_view_witness:
  "find_one ''_-012345'' (jewelry_items example_db) = Some example_doc \<and>
   map_option (\<lambda>d'. views (analytics d'))
     (find_one ''_-012345'' (jewelry_items (snd (get_jewelry_by_id ''_-012345'' example_db)))) =
   Some 1 \<and>
   find_one ''absent00'' (jewelry_items example_db) = None \<and>
   get_jewelry_by_id ''absent00'' example_db =
     (Inl (HTTPException 404 (Text ''Jewelry item not found'')), example_db) \<and>
   create_jewelry example_env example_item empty_db = (Inr example_doc, example_db) \<and>
   map_option (\<lambda>d'. views (analytics d'))
     (find_one ''_-012345''
        (jewelry_items
           (snd (get_jewelry_by_id ''_-012345''
              (snd (get_jewelry_by_id ''_-012345''
                 (snd (get_jewelry_by_id ''_-012345'' example_db)))))))) =
   Some 3"
proof -
  have v: "views (analytics example_doc) = 0" and i: "item_id example_doc = ''_-012345''"
    by (simp_all add: example_doc_def)
  from get_jewelry_by_id_counts_view [of "''_-012345''" example_db example_env example_item]
    find_one_example v
  have one: "map_option (\<lambda>d'. views (analytics d'))
     (find_one ''_-012345'' (jewelry_items (snd (get_jewelry_by_id ''_-012345'' example_db)))) =
   Some 1"
    by simp
  from get_jewelry_by_id_counts_view [of "''absent00''" example_db example_env example_item]
    find_one_example_absent
  have absent: "get_jewelry_by_id ''absent00'' example_db =
     (Inl (HTTPException 404 (Text ''Jewelry item not found'')), example_db)"
    by simp
  from get_jewelry_by_id_counts_view [of "''absent00''" empty_db example_env example_item]
    create_jewelry_example i
  have three: "map_option (\<lambda>d'. views (analytics d'))
     (find_one ''_-012345''
        (jewelry_items
           (snd (get_jewelry_by_id ''_-012345''
              (snd (get_jewelry_by_id ''_-012345''
                 (snd (get_jewelry_by_id ''_-012345'' example_db)))))))) =
   Some 3"
    by (metis (no_types, lifting))
  from find_one_example one find_one_example_absent absent create_jewelry_example three
  show ?thesis by (intro conjI)
qed

text \<open>
  Claim C10. The item in the response of a successful Get is the document as it was
  stored before the call: its \<open>analytics.views\<close> is the value stored before, which is
  one less than the value stored after the call.
\<close>

theorem get_jewelry_by_id_returns_snapshot:
  "find_one iid (jewelry_items db) = Some d \<Longrightarrow>
   \<exists>d'. get_jewelry_by_id iid db = (Inr d, snd (get_jewelry_by_id iid db)) \<and>
        find_one iid (jewelry_items (snd (get_jewelry_by_id iid db))) = Some d' \<and>
        views (analytics d) = views (analytics d') - 1"
  by (simp add: find_one_get views_mongo_inc_views) (simp add: get_jewelry_by_id_def)

theorem get_jewelry_by_id_returns_snapshot_witness:
  "find_one ''_-012345'' (jewelry_items example_db) = Some example_doc \<and>
   (\<exists>d'. get_jewelry_by_id ''_-012345'' example_db =
            (Inr example_doc, snd (get_jewelry_by_id ''_-012345'' example_db)) \<and>
         find_one ''_-012345'' (jewelry_items (snd (get_jewelry_by_id ''_-012345'' example_db))) =
           Some d' \<and>
         views (analytics example_doc) = views (analytics d') - 1)"
  using get_jewelry_by_id_returns_snapshot [OF find_one_example] find_one_example
  by simp

section \<open>TrackEvent\<close>

lemma counter_value_inc_counter:
  "counter_value k' (inc_counter k n kvs) =
     (if k' = k then counter_value k kvs + n else counter_value k' kvs)"
  by (induction kvs) (auto simp: counter_value_def)

lemma event_counter_mongo_inc:
  "event_counter t' (analytics (mongo_inc (update_field format_value t) 1 d)) =
     (if t' = t then event_counter t (analytics d) + 1 else event_counter t' (analytics d))"
  by (cases t; cases t')
     (simp_all add: update_field_def format_value_def mongo_inc_def Let_def
        counter_value_inc_counter)

lemma length_generate: "length (generate rnd n) = n"
  by (simp add: generate_def)

lemma find_one_catalog_busy: "find_one ''_-012345'' (jewelry_items catalog_db) = Some busy_doc"
  by (simp add: find_one_def catalog_db_def busy_doc_def example_doc_def)

lemma find_one_catalog_absent: "find_one ''absent00'' (jewelry_items catalog_db) = None"
  by (simp add: find_one_def catalog_db_def busy_doc_def idle_doc_def archived_doc_def
      example_doc_def)

text \<open>
  What TrackEvent does under every \<open>format()\<close>: it succeeds, appends one event document
  with a generated \<open>event_id\<close> of 16 characters, the clock reading as its timestamp and
  the \<open>jewelry_id\<close> and event type of the input, leaves the items with another
  \<open>item_id\<close> untouched, and leaves the items collection unchanged when no item matches.
\<close>

lemma track_event_stores_event:
  "fst (track_event e event db) = Inr () \<and>
   (\<exists>doc. analytics_events (snd (track_event e event db)) = analytics_events db @ [doc] \<and>
          length (event_id doc) = 16 \<and> timestamp doc = utcnow e \<and>
          jewelry_id doc = create_jewelry_id event \<and>
          event_type doc = create_event_type event) \<and>
   (\<forall>iid. iid \<noteq> create_jewelry_id event \<longrightarrow>
      find_one iid (jewelry_items (snd (track_event e event db))) =
      find_one iid (jewelry_items db)) \<and>
   (find_one (create_jewelry_id event) (jewelry_items db) = None \<longrightarrow>
      jewelry_items (snd (track_event e event db)) = jewelry_items db)"
proof (intro conjI allI impI)
  show "fst (track_event e event db) = Inr ()"
    by (simp add: track_event_def Let_def)
  show "\<exists>doc. analytics_events (snd (track_event e event db)) = analytics_events db @ [doc] \<and>
          length (event_id doc) = 16 \<and> timestamp doc = utcnow e \<and>
          jewelry_id doc = create_jewelry_id event \<and>
          event_type doc = create_event_type event"
    by (simp add: track_event_def Let_def length_generate)
next
  fix iid assume "iid \<noteq> create_jewelry_id event"
  then show "find_one iid (jewelry_items (snd (track_event e event db))) =
      find_one iid (jewelry_items db)"
    by (simp add: track_event_def Let_def find_one_update_one_other item_id_mongo_inc)
next
  assume "find_one (create_jewelry_id event) (jewelry_items db) = None"
  then show "jewelry_items (snd (track_event e event db)) = jewelry_items db"
    by (simp add: track_event_def Let_def update_one_absent)
qed

text \<open>
  With the \<open>format()\<close> of Python 3.10 and earlier, the counter of the event type grows
  by exactly 1 on the stored item (\<open>views\<close> for view, \<open>shares\<close> for share, \<open>try_ons\<close>
  for try_on), and the counters of the other event types keep their values.
\<close>

lemma track_event_value_format_counts:
  assumes fmt: "enum_format e = format_value"
    and f: "find_one (create_jewelry_id event) (jewelry_items db) = Some d"
  shows "\<exists>d'. find_one (create_jewelry_id event) (jewelry_items (snd (track_event e event db))) =
              Some d' \<and>
            d' = mongo_inc (''analytics.'' @ EventType_value (create_event_type event) @ ''s'') 1 d \<and>
            event_counter (create_event_type event) (analytics d') =
              event_counter (create_event_type event) (analytics d) + 1 \<and>
            (\<forall>t. t \<noteq> create_event_type event \<longrightarrow>
                 event_counter t (analytics d') = event_counter t (analytics d)) \<and>
            (create_event_type event = VIEW \<longrightarrow> views (analytics d') = views (analytics d) + 1) \<and>
            (create_event_type event = SHARE \<longrightarrow>
               shares (analytics d') = shares (analytics d) + 1) \<and>
            (create_event_type event = TRY_ON \<longrightarrow>
               try_ons (analytics d') = try_ons (analytics d) + 1)"
proof -
  let ?t = "create_event_type event"
  let ?d' = "mongo_inc (update_field format_value ?t) 1 d"
  have s: "find_one (create_jewelry_id event) (jewelry_items (snd (track_event e event db))) =
      Some ?d'"
    using f fmt by (simp add: track_event_def Let_def find_one_update_one item_id_mongo_inc)
  have c: "event_counter ?t (analytics ?d') = event_counter ?t (analytics d) + 1"
    and o: "\<forall>t. t \<noteq> ?t \<longrightarrow> event_counter t (analytics ?d') = event_counter t (analytics d)"
    by (simp_all add: event_counter_mongo_inc)
  have v: "?t = VIEW \<longrightarrow> views (analytics ?d') = views (analytics d) + 1"
    and sh: "?t = SHARE \<longrightarrow> shares (analytics ?d') = shares (analytics d) + 1"
    and tr: "?t = TRY_ON \<longrightarrow> try_ons (analytics ?d') = try_ons (analytics d) + 1"
    using c by auto
  have u: "?d' = mongo_inc (''analytics.'' @ EventType_value ?t @ ''s'') 1 d"
    by (simp add: update_field_def format_value_def)
  from s u c o v sh tr show ?thesis
    by (intro exI [of _ ?d'] conjI)
qed

text \<open>
  Claim C2, at a share event for a stored item whose \<open>analytics.shares\<close> is 2, with the
  \<open>format()\<close> of Python 3.11 and later. The event is stored and the call succeeds, but
  the incremented path is \<open>analytics.EventType.SHAREs\<close>: \<open>analytics.shares\<close> is still 2
  afterwards, and a new counter with value 1 appears under the other path.
\<close>

theorem track_event_share_misses_counter:
  "find_one ''_-012345'' (jewelry_items catalog_db) = Some busy_doc \<and>
   shares (analytics busy_doc) = 2 \<and>
   fst (track_event example_env share_event catalog_db) = Inr () \<and>
   length (analytics_events (snd (track_event example_env share_event catalog_db))) = 1 \<and>
   update_field (enum_format example_env) SHARE = ''analytics.EventType.SHAREs'' \<and>
   map_option (\<lambda>d. shares (analytics d))
     (find_one ''_-012345''
        (jewelry_items (snd (track_event example_env share_event catalog_db)))) =
   Some 2 \<and>
   map_option (\<lambda>d. other_counters (analytics d))
     (find_one ''_-012345''
        (jewelry_items (snd (track_event example_env share_event catalog_db)))) =
   Some [(''analytics.EventType.SHAREs'', 1)]"
proof -
  have sh: "shares (analytics busy_doc) = 2"
    by (simp add: busy_doc_def)
  have u: "update_field (enum_format example_env) SHARE = ''analytics.EventType.SHAREs''"
    by (simp add: update_field_def example_env_def format_member_def)
  have ev: "create_jewelry_id share_event = ''_-012345''" "create_event_type share_event = SHARE"
    by (simp_all add: share_event_def)
  have after: "find_one ''_-012345''
        (jewelry_items (snd (track_event example_env share_event catalog_db))) =
      Some (mongo_inc ''analytics.EventType.SHAREs'' 1 busy_doc)"
    using find_one_catalog_busy
    by (simp add: track_event_def Let_def ev u find_one_update_one item_id_mongo_inc)
  have m: "shares (analytics (mongo_inc ''analytics.EventType.SHAREs'' 1 busy_doc)) = 2"
    "other_counters (analytics (mongo_inc ''analytics.EventType.SHAREs'' 1 busy_doc)) =
       [(''analytics.EventType.SHAREs'', 1)]"
    by (simp_all add: mongo_inc_def Let_def busy_doc_def)
  have ok: "fst (track_event example_env share_event catalog_db) = Inr ()"
    by (simp add: track_event_def Let_def)
  have n: "length (analytics_events (snd (track_event example_env share_event catalog_db))) = 1"
    by (simp add: track_event_def Let_def catalog_db_def)
  from after m have a1: "map_option (\<lambda>d. shares (analytics d))
     (find_one ''_-012345''
        (jewelry_items (snd (track_event example_env share_event catalog_db)))) =
   Some 2"
    and a2: "map_option (\<lambda>d. other_counters (analytics d))
     (find_one ''_-012345''
        (jewelry_items (snd (track_event example_env share_event catalog_db)))) =
   Some [(''analytics.EventType.SHAREs'', 1)]"
    by simp_all
  from find_one_catalog_busy sh ok n u a1 a2 show ?thesis
    by (intro conjI)
qed

section \<open>GetOverallAnalytics\<close>


lemma sorted_sort_desc: "sorted_wrt (\<lambda>x y. k y \<le> k x) (sort_desc k xs)"
proof -
  have "sorted (map (\<lambda>x. - k x) (sort_key (\<lambda>x. - k x) xs))"
    by (rule sorted_sort_key)
  then show ?thesis
    by (simp add: sort_desc_def sorted_map)
qed

lemma mset_sort_desc: "mset (sort_desc k xs) = mset xs"
  by (simp add: sort_desc_def)









section \<open>List\<close>

lemma ceil_div:
  fixes a b :: int
  assumes "0 < b"
  shows "(a + b - 1) div b = \<lceil>(of_int a :: rat) / of_int b\<rceil>"
proof -
  define z where "z = (a + b - 1) div b"
  define m where "m = (a + b - 1) mod b"
  have e: "z * b + m = a + b - 1"
    by (simp add: z_def m_def)
  have r: "0 \<le> m" "m < b"
    using assms by (simp_all add: m_def)
  have d: "(z - 1) * b = z * b - b"
    by (simp add: algebra_simps)
  from e r d have lo: "(z - 1) * b < a" and hi: "a \<le> z * b"
    by linarith+
  from lo have "(of_int ((z - 1) * b) :: rat) < of_int a"
    by (simp only: of_int_less_iff)
  then have lo': "(of_int z - 1 :: rat) < of_int a / of_int b"
    using assms by (simp add: pos_less_divide_eq)
  from hi have "(of_int a :: rat) \<le> of_int (z * b)"
    by (simp only: of_int_le_iff)
  then have hi': "(of_int a :: rat) / of_int b \<le> of_int z"
    using assms by (simp add: pos_divide_le_eq)
  from lo' hi' have "\<lceil>(of_int a :: rat) / of_int b\<rceil> = z"
    by (rule ceiling_unique)
  then show ?thesis
    by (simp add: z_def)
qed

lemma matches_build_query:
  "matches (build_query t s) d \<longleftrightarrow>
     (truthy s \<longrightarrow> map_option JewelryStatus_value (status d) = s) \<and>
     (truthy t \<longrightarrow> map_option JewelryType_value (jewelry_type d) = t)"
  by (auto simp: matches_def build_query_def truthy_def split: option.splits)

lemma matches_numbered_doc: "matches (build_query None (Some ''active'')) (numbered_doc i)"
  by (simp add: matches_def build_query_def truthy_def numbered_doc_def example_doc_def)

lemma matching_big_db:
  "filter (matches (build_query None (Some ''active''))) (jewelry_items big_db) =
     jewelry_items big_db"
  by (simp add: big_db_def matches_numbered_doc)

lemma length_big_db: "length (jewelry_items big_db) = 45"
  by (simp add: big_db_def)

text \<open>
  When the model of List answers with an error at all: on a negative skip, on a
  \<open>page_size\<close> that is not positive, and on a skip or a \<open>page_size\<close> beyond 64 bits.
\<close>

lemma get_all_jewelry_error_iff:
  "(\<exists>ex. fst (get_all_jewelry pg pg_size t s db) = Inl ex) \<longleftrightarrow>
     (pg - 1) * pg_size < 0 \<or> pg_size \<le> 0 \<or>
     max_int64 < (pg - 1) * pg_size \<or> max_int64 < pg_size"
  by (auto simp: get_all_jewelry_def Let_def)

text \<open>
  Claim C9, amended in its last clause. With \<open>page_size = 0\<close>, List returns no
  paginated result for any page, filter and store: the division in \<open>total_pages\<close>
  raises ZeroDivisionError, which the handler's error branch turns into the 500 error,
  and the store is left as it is. The division by zero is the outcome exactly when
  \<open>page_size = 0\<close>. The error branch itself is reached on other inputs as well, with
  another exception and the same status 500: whenever the skip
  \<open>(page - 1) * page_size\<close> is negative, \<open>page_size\<close> is negative, or the skip or
  \<open>page_size\<close> does not fit in 64 bits.
\<close>

theorem get_all_jewelry_error_branch:
  "get_all_jewelry pg 0 t s db = (Inl (HTTPException 500 (Str ZeroDivisionError)), db) \<and>
   (fst (get_all_jewelry pg pg_size t s db) = Inl (HTTPException 500 (Str ZeroDivisionError))
      \<longleftrightarrow> pg_size = 0) \<and>
   ((pg - 1) * pg_size < 0 \<or> pg_size < 0 \<or>
    max_int64 < (pg - 1) * pg_size \<or> max_int64 < pg_size \<longrightarrow>
    (\<exists>ex. get_all_jewelry pg pg_size t s db = (Inl (HTTPException 500 (Str ex)), db) \<and>
          ex \<noteq> ZeroDivisionError))"
proof (intro conjI impI)
  show "get_all_jewelry pg 0 t s db = (Inl (HTTPException 500 (Str ZeroDivisionError)), db)"
    by (simp add: get_all_jewelry_def Let_def internal_error_def max_int64_def)
  show "fst (get_all_jewelry pg pg_size t s db) = Inl (HTTPException 500 (Str ZeroDivisionError))
      \<longleftrightarrow> pg_size = 0"
    by (auto simp: get_all_jewelry_def Let_def internal_error_def max_int64_def)
next
  assume "(pg - 1) * pg_size < 0 \<or> pg_size < 0 \<or>
    max_int64 < (pg - 1) * pg_size \<or> max_int64 < pg_size"
  then show "\<exists>ex. get_all_jewelry pg pg_size t s db = (Inl (HTTPException 500 (Str ex)), db) \<and>
          ex \<noteq> ZeroDivisionError"
    by (auto simp: get_all_jewelry_def Let_def internal_error_def)
qed

theorem get_all_jewelry_error_branch_witness:
  "get_all_jewelry 1 0 None (Some ''active'') catalog_db =
     (Inl (HTTPException 500 (Str ZeroDivisionError)), catalog_db) \<and>
   fst (get_all_jewelry 1 20 None (Some ''active'') catalog_db) \<noteq>
     Inl (HTTPException 500 (Str ZeroDivisionError)) \<and>
   (- 5) < (0::int) \<and>
   (\<exists>ex. get_all_jewelry 1 (- 5) None (Some ''active'') catalog_db =
           (Inl (HTTPException 500 (Str ex)), catalog_db) \<and>
         ex \<noteq> ZeroDivisionError)"
proof -
  note zero = get_all_jewelry_error_branch [of 1 None "Some ''active''" catalog_db 20]
  note negative = get_all_jewelry_error_branch [of 1 None "Some ''active''" catalog_db "- 5"]
  have h: "(- 5) < (0::int)"
    by simp
  from zero have z: "get_all_jewelry 1 0 None (Some ''active'') catalog_db =
     (Inl (HTTPException 500 (Str ZeroDivisionError)), catalog_db)"
    by (rule conjunct1)
  from zero have n: "fst (get_all_jewelry 1 20 None (Some ''active'') catalog_db) \<noteq>
     Inl (HTTPException 500 (Str ZeroDivisionError))"
    by simp
  from negative h have e: "\<exists>ex. get_all_jewelry 1 (- 5) None (Some ''active'') catalog_db =
           (Inl (HTTPException 500 (Str ex)), catalog_db) \<and>
         ex \<noteq> ZeroDivisionError"
    by blast
  from z n h e show ?thesis
    by (intro conjI)
qed

text \<open>
  Claim C9 as stated fails in its last clause: at page -1 with \<open>page_size = 10\<close> the
  skip is negative, the driver raises ValueError and the handler's error branch answers
  with the 500 error, although \<open>page_size\<close> is not 0.
\<close>

theorem get_all_jewelry_negative_page_counterexample:
  "get_all_jewelry (- 1) 10 None None example_db =
     (Inl (HTTPException 500 (Str (ValueError ''skip''))), example_db) \<and>
   (10::int) \<noteq> 0"
  by (simp add: get_all_jewelry_def Let_def internal_error_def)

text \<open>
  Claim C4, amended to the pages that the driver accepts. For every \<open>page \<ge> 1\<close> and
  positive \<open>page_size\<close> such that \<open>page_size\<close> and the skip \<open>(page - 1) * page_size\<close>
  fit in 64 bits, List succeeds and leaves the store as it is. Its items are the window
  of \<open>page_size\<close> entries after the first \<open>(page - 1) * page_size\<close> of the matching
  items in descending order of \<open>created_at\<close>; \<open>count\<close> is the number of returned
  items, \<open>total_count\<close> the number of all matching items, and \<open>total_pages\<close> the
  ceiling of \<open>total_count / page_size\<close>.
\<close>

theorem get_all_jewelry_pagination:
  assumes "1 \<le> pg" and "0 < pg_size"
    and "pg_size \<le> max_int64" and "(pg - 1) * pg_size \<le> max_int64"
  shows "\<exists>r L. get_all_jewelry pg pg_size t s db = (Inr r, db) \<and>
     mset L = mset (filter (matches (build_query t s)) (jewelry_items db)) \<and>
     sorted_wrt (\<lambda>x y. created_at y \<le> created_at x) L \<and>
     items r = take (nat pg_size) (drop (nat ((pg - 1) * pg_size)) L) \<and>
     count r = int (length (items r)) \<and> page r = pg \<and> page_size r = pg_size \<and>
     total_count r = int (length (filter (matches (build_query t s)) (jewelry_items db))) \<and>
     total_pages r = \<lceil>(of_int (total_count r) :: rat) / of_int pg_size\<rceil>"
proof -
  let ?m = "filter (matches (build_query t s)) (jewelry_items db)"
  let ?L = "sort_desc created_at ?m"
  let ?found = "take (nat pg_size) (drop (nat ((pg - 1) * pg_size)) ?L)"
  let ?r = "\<lparr>items = ?found, count = int (length ?found), page = pg, page_size = pg_size,
             total_count = int (length ?m),
             total_pages = (int (length ?m) + pg_size - 1) div pg_size\<rparr>"
  from assms(1,2) have sk: "\<not> (pg - 1) * pg_size < 0"
    by (simp add: not_less)
  with assms have r: "get_all_jewelry pg pg_size t s db = (Inr ?r, db)"
    by (simp add: get_all_jewelry_def Let_def count_documents_def)
  have tp: "total_pages ?r = \<lceil>(of_int (total_count ?r) :: rat) / of_int pg_size\<rceil>"
    using assms(2) by (simp add: ceil_div)
  show ?thesis
    apply (rule exI [of _ ?r], rule exI [of _ ?L])
    apply (intro conjI)
            apply (rule r)
           apply (rule mset_sort_desc)
          apply (rule sorted_sort_desc)
         apply simp
        apply simp
       apply simp
      apply simp
     apply simp
    apply (rule tp)
    done
qed


theorem get_all_jewelry_pagination_witness:
  "(1::int) \<le> 1 \<and> (0::int) < 20 \<and> 20 \<le> max_int64 \<and> (1 - 1) * 20 \<le> max_int64 \<and>
   (\<exists>r. get_all_jewelry 1 20 None (Some ''active'') big_db = (Inr r, big_db) \<and>
        total_count r = 45 \<and> total_pages r = 3 \<and> count r = 20)"
proof -
  have b: "20 \<le> max_int64" "(1 - 1) * 20 \<le> max_int64"
    by (simp_all add: max_int64_def)
  from b get_all_jewelry_pagination [of 1 20 None "Some ''active''" big_db]
  obtain r L where r: "get_all_jewelry 1 20 None (Some ''active'') big_db = (Inr r, big_db)"
    and L: "mset L = mset (jewelry_items big_db)"
    and i: "items r = take 20 L"
    and c: "count r = int (length (items r))"
    and t: "total_count r = 45"
    and p: "total_pages r = \<lceil>(of_int (total_count r) :: rat) / of_int 20\<rceil>"
    unfolding matching_big_db length_big_db by auto
  from L have "length L = 45"
    using length_big_db by (metis size_mset)
  with i c have c': "count r = 20"
    by simp
  from p t have "total_pages r = \<lceil>(of_int 45 :: rat) / of_int 20\<rceil>"
    by simp
  also have "\<dots> = - (- 45 div 20)"
    by (rule ceiling_divide_eq_div)
  also have "\<dots> = 3"
    by simp
  finally have p': "total_pages r = 3" .
  from r t p' c' have "\<exists>r. get_all_jewelry 1 20 None (Some ''active'') big_db = (Inr r, big_db) \<and>
        total_count r = 45 \<and> total_pages r = 3 \<and> count r = 20"
    by blast
  with b show ?thesis
    by simp
qed

text \<open>
  Claim C4 as stated, for every page, fails at page 0: the skip is negative, the driver
  rejects it, and List answers with the 500 error although active items are stored. It
  fails as well at page \<open>2^63 + 1\<close> with \<open>page_size = 1\<close>: the skip \<open>2^63\<close> does
  not fit in 64 bits and the driver raises OverflowError.
\<close>

theorem get_all_jewelry_page_zero_counterexample:
  "fst (get_all_jewelry 0 20 None (Some ''active'') catalog_db) =
     Inl (HTTPException 500 (Str (ValueError ''skip''))) \<and>
   fst (get_all_jewelry (2 ^ 63 + 1) 1 None (Some ''active'') catalog_db) =
     Inl (HTTPException 500 (Str (OverflowError ''8-byte ints'')))"
  by (simp add: get_all_jewelry_def Let_def internal_error_def max_int64_def)

section \<open>Update\<close>




text \<open>The sub-document stored for a nested model holds exactly the keys that were set.\<close>

lemma map_of_dict_exclude_unset:
  "map_of (dict_exclude_unset fs kvs) k = (if k \<in> set fs then map_of kvs k else None)"
  by (induction kvs) (auto simp: dict_exclude_unset_def)






section \<open>Status transitions\<close>










section \<open>Create\<close>


text \<open>
  When the \<open>ar_config\<close> key is absent from the request, pydantic supplies the default
  model and the created item carries the documented defaults.
\<close>

lemma create_jewelry_omitted_ar_config:
  "\<exists>doc. create_jewelry example_env (parse_JewelryItemCreate omitted_ar_config_body) empty_db =
           (Inr doc, \<lparr>jewelry_items = [doc], analytics_events = []\<rparr>) \<and>
         ar_config doc =
           Some [(''color'', VStr ''#FFD700''), (''size'', VInt 30),
                 (''position_offset'', VIntDict [(''x'', 0), (''y'', 0)]),
                 (''landmarks'', VIntList [234, 454]), (''render_type'', VStr ''circle'')]"
  by (simp add: create_jewelry_def Let_def parse_JewelryItemCreate_def omitted_ar_config_body_def
      null_ar_config_body_def insert_one_def empty_db_def ARConfigModel_default_def
      ARConfigModel_dict_def)




text \<open>
  Claim C8, at a request whose \<open>ar_config\<close> is \<open>null\<close>. For every such request, every
  environment and every store, Create raises NameError on \<open>ARConfigModel\<close>, answers
  with the 500 error and inserts nothing; the request \<open>null_ar_config_body\<close> is valid
  and is such an input. The claim expects the creation to succeed with the default
  \<open>ar_config\<close>.
\<close>

theorem create_jewelry_null_ar_config:
  "create_jewelry e (parse_JewelryItemCreate (b\<lparr>body_ar_config := Given None\<rparr>)) db =
     (Inl (HTTPException 500 (Str (NameError ''ARConfigModel''))), db) \<and>
   valid_JewelryItemCreate (parse_JewelryItemCreate null_ar_config_body) \<and>
   create_jewelry example_env (parse_JewelryItemCreate null_ar_config_body) empty_db =
     (Inl (HTTPException 500 (Str (NameError ''ARConfigModel''))), empty_db)"
  by (simp add: create_jewelry_def Let_def parse_JewelryItemCreate_def null_ar_config_body_def
      valid_JewelryItemCreate_def valid_PriceModel_def valid_StockModel_def
      StockModel_default_def)

end
